theory Spec2Isabelle
  imports Main "HOL-Library.Word" "HOL-Library.AList"
begin

section \<open>The storage-contract rules of the consensus state (sia/contracts.go)\<close>

text \<open>
  The file \<^verbatim>\<open>contracts.go\<close> holds seven methods of \<^verbatim>\<open>*State\<close>. The declarations of the
  types they work on (\<^verbatim>\<open>State\<close>, \<^verbatim>\<open>FileContract\<close>, \<^verbatim>\<open>OpenContract\<close>, \<^verbatim>\<open>Output\<close>, ...) and
  the methods \<^verbatim>\<open>WindowIndex\<close>, \<^verbatim>\<open>StorageProofOutputID\<close>, \<^verbatim>\<open>ContractTerminationOutputID\<close>
  and the package \<^verbatim>\<open>hash\<close> live elsewhere. What the seven methods need of them is kept
  open here:

  \<^item> the integer types are type parameters: \<open>'c\<close> is the currency type (\<^verbatim>\<open>ContractFund\<close>,
    \<^verbatim>\<open>FundsRemaining\<close>, the payouts, \<^verbatim>\<open>Output.Value\<close>), \<open>'h\<close> the block height type
    (\<^verbatim>\<open>Start\<close>, \<^verbatim>\<open>End\<close>, \<^verbatim>\<open>ChallengeFrequency\<close>, \<^verbatim>\<open>Height()\<close>) and \<open>'n\<close> the counter
    type (\<^verbatim>\<open>Tolerance\<close>, \<^verbatim>\<open>Failures\<close>). Go compares and assigns only values of one type, so
    the fields that meet in a comparison or an assignment share a parameter. A machine
    integer type of Go is a commutative ring (its arithmetic wraps around) with a linear
    order; \<open>64 word\<close> is the instance for \<^verbatim>\<open>uint64\<close>;
  \<^item> the absent functions are function parameters, named as in the source;
  \<^item> identifiers and addresses are byte strings.
\<close>

subsection \<open>Data\<close>

type_synonym byte = "8 word"
type_synonym Hash = "byte list"
type_synonym ContractID = Hash
type_synonym OutputID = Hash
type_synonym CoinAddress = Hash
type_synonym BlockID = Hash

text \<open>A Go \<^verbatim>\<open>error\<close> made by \<^verbatim>\<open>errors.New\<close> is its message; \<^verbatim>\<open>nil\<close> is \<open>None\<close>.\<close>

type_synonym error = string

text \<open>
  A run-time panic ends the call. \<open>NilDereference\<close> is the field access through the
  \<^verbatim>\<open>nil\<close> pointer that a map of pointers gives for an absent key, \<open>DivideByZero\<close> the
  integer \<^verbatim>\<open>%\<close> and \<^verbatim>\<open>big.Int.Mod\<close> by zero, \<open>Panic err\<close> the \<^verbatim>\<open>panic(err)\<close> of the
  source, \<open>IndexOutOfRange\<close> is left for the lookup in \<^verbatim>\<open>CurrentPath\<close>.
\<close>

datatype fault = NilDereference | DivideByZero | IndexOutOfRange | Panic error

record ('c, 'h, 'n) FileContract =
  ContractFund :: 'c
  FileMerkleRoot :: Hash
  FileSize :: "64 word"
  Start :: 'h
  End :: 'h
  ChallengeFrequency :: 'h
  Tolerance :: 'n
  ValidProofPayout :: 'c
  ValidProofAddress :: CoinAddress
  MissedProofPayout :: 'c
  MissedProofAddress :: CoinAddress

record ('c, 'h, 'n) OpenContract =
  FileContract :: "('c, 'h, 'n) FileContract"
  ContractID :: ContractID
  FundsRemaining :: 'c
  Failures :: 'n
  WindowSatisfied :: bool

record ('g, 'p) StorageProof =
  sp_ContractID :: ContractID
  Segment :: 'g
  HashSet :: 'p

record 'c Output =
  Value :: 'c
  SpendHash :: CoinAddress

record MissedStorageProof =
  msp_OutputID :: OutputID
  msp_ContractID :: ContractID

text \<open>
  \<^verbatim>\<open>OpenContracts\<close> is a \<^verbatim>\<open>map[ContractID]*OpenContract\<close>: the source stores
  \<^verbatim>\<open>&openContract\<close> in it, assigns to fields through its entries, and appends the
  pointers it ranges over to \<^verbatim>\<open>ContractTerminations\<close>. The records therefore live in a
  store, \<open>heap\<close>, and the map and the termination list hold addresses. \<open>nextRef\<close> is
  the allocator: the address the next \<^verbatim>\<open>&openContract\<close> gets. An absent key reads as
  \<^verbatim>\<open>nil\<close> (\<open>None\<close>); the source never stores \<^verbatim>\<open>nil\<close> itself.

  The map is an association list: \<^verbatim>\<open>range\<close> visits its entries in the list's order. Go
  leaves that order open, and so does a statement about every list.
\<close>

type_synonym ref = nat

record BlockNode =
  MissedStorageProofs :: "MissedStorageProof list"
  ContractTerminations :: "ref list"

text \<open>
  \<open>Height\<close> and \<open>currentBlockNode\<close> are what the accessors \<^verbatim>\<open>s.Height()\<close> and
  \<^verbatim>\<open>s.currentBlockNode()\<close> return. \<open>CurrentPath s h\<close> is the index expression
  \<^verbatim>\<open>s.CurrentPath[h]\<close>: the declaration of \<^verbatim>\<open>CurrentPath\<close> is not in the file, so whether
  an absent height reads as a zero block id or panics is left to this field.
\<close>

record ('c, 'h, 'n) State =
  OpenContracts :: "(ContractID \<times> ref) list"
  heap :: "ref \<Rightarrow> ('c, 'h, 'n) OpenContract"
  nextRef :: ref
  UnspentOutputs :: "OutputID \<rightharpoonup> 'c Output"
  Height :: 'h
  CurrentPath :: "'h \<Rightarrow> fault + BlockID"
  currentBlockNode :: BlockNode

subsection \<open>The absent functions, as parameters\<close>

type_synonym ('c, 'h, 'n) WindowIndex_fn =
  "('c, 'h, 'n) FileContract \<Rightarrow> 'h \<Rightarrow> error + 'h"

type_synonym ('c, 'h, 'n) StorageProofOutputID_fn =
  "('c, 'h, 'n) FileContract \<Rightarrow> ContractID \<Rightarrow> 'h \<Rightarrow> bool \<Rightarrow> error + OutputID"

type_synonym ('c, 'h, 'n) ContractTerminationOutputID_fn =
  "('c, 'h, 'n) FileContract \<Rightarrow> ContractID \<Rightarrow> bool \<Rightarrow> OutputID"

type_synonym HashBytes_fn = "byte list \<Rightarrow> Hash"

subsection \<open>currentProofIndex (lines 12-28)\<close>

text \<open>\<^verbatim>\<open>new(big.Int).SetBytes\<close>: the bytes as a big-endian unsigned integer.\<close>

definition SetBytes :: "byte list \<Rightarrow> int" where
  "SetBytes bs = foldl (\<lambda>a b. a * 256 + uint b) 0 bs"

text \<open>
  \<^verbatim>\<open>big.NewInt(int64(contract.FileSize))\<close> reads the file size as a signed 64-bit value.
  \<^verbatim>\<open>Mod\<close> panics on a zero modulus and is the Euclidean modulus otherwise: the result
  lies between 0 and the modulus's absolute value. \<^verbatim>\<open>Int64\<close> and \<^verbatim>\<open>uint64\<close> keep that
  value. On an error of \<^verbatim>\<open>WindowIndex\<close> the bare \<^verbatim>\<open>return\<close> gives the named result's zero
  value.
\<close>

definition currentProofIndex ::
  "('c, 'h::{comm_ring_1}, 'n) WindowIndex_fn \<Rightarrow> HashBytes_fn \<Rightarrow>
   ('c, 'h, 'n) State \<Rightarrow> ('g, 'p) StorageProof \<Rightarrow> fault + 64 word" where
  "currentProofIndex WindowIndex HashBytes s sp =
     (case map_of (OpenContracts s) (sp_ContractID sp) of
        None \<Rightarrow> Inl NilDereference
      | Some r \<Rightarrow>
          (let contract = FileContract (heap s r) in
           case WindowIndex contract (Height s) of
             Inl err \<Rightarrow> Inr 0
           | Inr windowIndex \<Rightarrow>
               (let triggerBlock = windowIndex * Start contract - 1 in
                case CurrentPath s triggerBlock of
                  Inl f \<Rightarrow> Inl f
                | Inr triggerBlockID \<Rightarrow>
                    (let indexSeed = HashBytes (triggerBlockID @ sp_ContractID sp);
                         seedInt = SetBytes indexSeed
                     in if sint (FileSize contract) = 0 then Inl DivideByZero
                        else Inr (word_of_int (seedInt mod \<bar>sint (FileSize contract)\<bar>))))))"

subsection \<open>validProof (lines 32-56)\<close>

text \<open>
  \<^verbatim>\<open>hash.CalculateSegments\<close> and \<^verbatim>\<open>hash.VerifyReaderProof\<close> are parameters. The first takes
  \<^verbatim>\<open>int64(FileSize)\<close>, the same 64 bits read as signed. \<open>Inr None\<close> is the result
  \<^verbatim>\<open>err = nil\<close>; the arguments of \<^verbatim>\<open>VerifyReaderProof\<close> are evaluated first, so a panic of
  \<open>currentProofIndex\<close> is a panic of \<open>validProof\<close>.
\<close>

definition validProof ::
  "(64 word \<Rightarrow> error + 'k) \<Rightarrow> ('g \<Rightarrow> 'p \<Rightarrow> 'k \<Rightarrow> 64 word \<Rightarrow> Hash \<Rightarrow> bool) \<Rightarrow>
   ('c, 'h::{comm_ring_1}, 'n) WindowIndex_fn \<Rightarrow> HashBytes_fn \<Rightarrow>
   ('c, 'h, 'n) State \<Rightarrow> ('g, 'p) StorageProof \<Rightarrow> fault + error option" where
  "validProof CalculateSegments VerifyReaderProof WindowIndex HashBytes s sp =
     (case map_of (OpenContracts s) (sp_ContractID sp) of
        None \<Rightarrow> Inr (Some ''unrecognized contract id in storage proof'')
      | Some r \<Rightarrow>
          (let openContract = heap s r in
           if WindowSatisfied openContract
           then Inr (Some ''storage proof has already been completed for this contract'')
           else
             (case CalculateSegments (FileSize (FileContract openContract)) of
                Inl err \<Rightarrow> Inr (Some err)
              | Inr numSegments \<Rightarrow>
                  (case currentProofIndex WindowIndex HashBytes s sp of
                     Inl f \<Rightarrow> Inl f
                   | Inr proofIndex \<Rightarrow>
                       if \<not> VerifyReaderProof (Segment sp) (HashSet sp) numSegments proofIndex
                              (FileMerkleRoot (FileContract openContract))
                       then Inr (Some ''provided storage proof is invalid'')
                       else Inr None))))"

subsection \<open>applyStorageProof (lines 60-84)\<close>

definition applyStorageProof ::
  "('c::{ord,minus}, 'h, 'n) StorageProofOutputID_fn \<Rightarrow>
   ('c, 'h, 'n) State \<Rightarrow> ('g, 'p) StorageProof \<Rightarrow> fault + ('c, 'h, 'n) State" where
  "applyStorageProof StorageProofOutputID s sp =
     (case map_of (OpenContracts s) (sp_ContractID sp) of
        None \<Rightarrow> Inl NilDereference
      | Some r \<Rightarrow>
          (let openContract = heap s r;
               payout = (if FundsRemaining openContract < ValidProofPayout (FileContract openContract)
                         then FundsRemaining openContract
                         else ValidProofPayout (FileContract openContract));
               output = \<lparr>Value = payout,
                         SpendHash = ValidProofAddress (FileContract openContract)\<rparr>
           in case StorageProofOutputID (FileContract openContract) (ContractID openContract)
                     (Height s) True of
                Inl err \<Rightarrow> Inl (Panic err)
              | Inr outputID \<Rightarrow>
                  Inr (s\<lparr>UnspentOutputs := (UnspentOutputs s)(outputID \<mapsto> output),
                         heap := (heap s)(r := openContract\<lparr>WindowSatisfied := True,
                                    FundsRemaining := FundsRemaining openContract - payout\<rparr>)\<rparr>)))"

subsection \<open>validContract (lines 89-104)\<close>

definition validContract ::
  "('c::{zero,ord}, 'h::ord, 'n) State \<Rightarrow> ('c, 'h, 'n) FileContract \<Rightarrow> error option" where
  "validContract s c =
     (if ContractFund c < 0 then Some ''contract must be funded.''
      else if Start c < Height s then Some ''contract must start in the future.''
      else if End c \<le> Start c then Some ''contract duration must be at least one block.''
      else None)"

subsection \<open>addContract (lines 108-117)\<close>

definition addContract ::
  "('c, 'h, 'n::zero) State \<Rightarrow> ('c, 'h, 'n) FileContract \<Rightarrow> ContractID \<Rightarrow> ('c, 'h, 'n) State" where
  "addContract s contract ident =
     (let openContract = \<lparr>FileContract = contract, ContractID = ident,
                           FundsRemaining = ContractFund contract, Failures = 0,
                           WindowSatisfied = True\<rparr>;
          r = nextRef s
      in s\<lparr>heap := (heap s)(r := openContract), nextRef := Suc r,
            OpenContracts := AList.update ident r (OpenContracts s)\<rparr>)"

subsection \<open>contractMaintenance (lines 122-192)\<close>

text \<open>
  The body of the scan is in two parts. \<open>windowSwitch\<close> is the check for the window
  switching over (lines 127-159), for the record at address \<open>r\<close>. Go evaluates the
  left operand of \<^verbatim>\<open>&&\<close> first, so the \<^verbatim>\<open>%\<close> runs, and panics on a zero
  \<^verbatim>\<open>ChallengeFrequency\<close>, whatever the height is.
\<close>

definition windowSwitch ::
  "('c::{ord,minus}, 'h::{zero,ord,minus,modulo}, 'n::{one,plus}) StorageProofOutputID_fn \<Rightarrow>
   ref \<Rightarrow> ('c, 'h, 'n) State \<Rightarrow> fault + ('c, 'h, 'n) State" where
  "windowSwitch StorageProofOutputID r s =
     (let openContract = heap s r; fc = FileContract openContract
      in if ChallengeFrequency fc = 0 then Inl DivideByZero
         else if (Height s - Start fc) mod ChallengeFrequency fc = 0 \<and> Height s > Start fc
         then
           (if WindowSatisfied openContract = False
            then
              (let payout = (if FundsRemaining openContract < MissedProofPayout fc
                             then FundsRemaining openContract else MissedProofPayout fc)
               in case StorageProofOutputID fc (ContractID openContract) (Height s) False of
                    Inl err \<Rightarrow> Inl (Panic err)
                  | Inr newOutputID \<Rightarrow>
                      (let output = \<lparr>Value = payout, SpendHash = MissedProofAddress fc\<rparr>;
                           msp = \<lparr>msp_OutputID = newOutputID,
                                  msp_ContractID = ContractID openContract\<rparr>
                       in Inr (s\<lparr>UnspentOutputs := (UnspentOutputs s)(newOutputID \<mapsto> output),
                                 currentBlockNode := (currentBlockNode s)
                                   \<lparr>MissedStorageProofs :=
                                      MissedStorageProofs (currentBlockNode s) @ [msp]\<rparr>,
                                 heap := (heap s)(r := openContract
                                   \<lparr>FundsRemaining := FundsRemaining openContract - payout,
                                    Failures := Failures openContract + 1,
                                    WindowSatisfied := False\<rparr>)\<rparr>)))
            else Inr (s\<lparr>heap := (heap s)(r := openContract\<lparr>WindowSatisfied := False\<rparr>)\<rparr>))
         else Inr s)"

text \<open>
  \<open>terminationCheck\<close> is the check for a terminated contract (lines 162-185); it also
  carries the local \<^verbatim>\<open>contractsToDelete\<close>.
\<close>

definition terminationCheck ::
  "('c::zero, 'h, 'n) ContractTerminationOutputID_fn \<Rightarrow> ref \<Rightarrow>
   ('c, 'h, 'n) State \<Rightarrow> ContractID list \<Rightarrow> ('c, 'h, 'n) State \<times> ContractID list" where
  "terminationCheck ContractTerminationOutputID r s contractsToDelete =
     (let openContract = heap s r; fc = FileContract openContract
      in if FundsRemaining openContract = 0 \<or> End fc = Height s \<or>
            Tolerance fc = Failures openContract
         then
           (let s1 =
              (if FundsRemaining openContract \<noteq> 0
               then
                 (let contractStatus = (Failures openContract = Tolerance fc);
                      outputID = ContractTerminationOutputID fc (ContractID openContract)
                                   contractStatus;
                      output = \<lparr>Value = FundsRemaining openContract,
                                SpendHash = (if Tolerance fc = Failures openContract
                                             then MissedProofAddress fc
                                             else ValidProofAddress fc)\<rparr>
                  in s\<lparr>UnspentOutputs := (UnspentOutputs s)(outputID \<mapsto> output)\<rparr>)
               else s)
            in (s1\<lparr>currentBlockNode := (currentBlockNode s1)
                     \<lparr>ContractTerminations :=
                        ContractTerminations (currentBlockNode s1) @ [r]\<rparr>\<rparr>,
                contractsToDelete @ [ContractID openContract]))
         else (s, contractsToDelete))"

text \<open>The scan of all open contracts: the \<^verbatim>\<open>range\<close> loop over the map's pointers.\<close>

fun maintenanceScan ::
  "('c::{zero,ord,minus}, 'h::{zero,ord,minus,modulo}, 'n::{one,plus}) StorageProofOutputID_fn \<Rightarrow>
   ('c, 'h, 'n) ContractTerminationOutputID_fn \<Rightarrow> ref list \<Rightarrow>
   ('c, 'h, 'n) State \<Rightarrow> ContractID list \<Rightarrow> fault + ('c, 'h, 'n) State \<times> ContractID list" where
  "maintenanceScan StorageProofOutputID ContractTerminationOutputID [] s contractsToDelete =
     Inr (s, contractsToDelete)"
| "maintenanceScan StorageProofOutputID ContractTerminationOutputID (r # rs) s contractsToDelete =
     (case windowSwitch StorageProofOutputID r s of
        Inl f \<Rightarrow> Inl f
      | Inr s1 \<Rightarrow>
          (case terminationCheck ContractTerminationOutputID r s1 contractsToDelete of
             (s2, contractsToDelete2) \<Rightarrow>
               maintenanceScan StorageProofOutputID ContractTerminationOutputID rs s2
                 contractsToDelete2))"

text \<open>The second loop (lines 189-191): delete all of the contracts that terminated.\<close>

definition deleteContracts ::
  "ContractID list \<Rightarrow> ('c, 'h, 'n) State \<Rightarrow> ('c, 'h, 'n) State" where
  "deleteContracts contractsToDelete s =
     s\<lparr>OpenContracts := foldl (\<lambda>m contractID. AList.delete contractID m) (OpenContracts s)
                           contractsToDelete\<rparr>"

definition contractMaintenance ::
  "('c::{zero,ord,minus}, 'h::{zero,ord,minus,modulo}, 'n::{one,plus}) StorageProofOutputID_fn \<Rightarrow>
   ('c, 'h, 'n) ContractTerminationOutputID_fn \<Rightarrow>
   ('c, 'h, 'n) State \<Rightarrow> fault + ('c, 'h, 'n) State" where
  "contractMaintenance StorageProofOutputID ContractTerminationOutputID s =
     (case maintenanceScan StorageProofOutputID ContractTerminationOutputID
             (map snd (OpenContracts s)) s [] of
        Inl f \<Rightarrow> Inl f
      | Inr (s', contractsToDelete) \<Rightarrow> Inr (deleteContracts contractsToDelete s'))"

subsection \<open>inverseContractMaintenance (lines 196-210)\<close>

text \<open>The body of the first loop: reopen a contract that terminated (lines 199-201).\<close>

definition reopenContract ::
  "('c, 'h, 'n) ContractTerminationOutputID_fn \<Rightarrow>
   ('c, 'h, 'n) State \<Rightarrow> ref \<Rightarrow> ('c, 'h, 'n) State" where
  "reopenContract ContractTerminationOutputID s r =
     (let openContract = heap s r;
          contractStatus = (Failures openContract = Tolerance (FileContract openContract))
      in s\<lparr>OpenContracts := AList.update (ContractID openContract) r (OpenContracts s),
            UnspentOutputs := (UnspentOutputs s)
              (ContractTerminationOutputID (FileContract openContract)
                 (ContractID openContract) contractStatus := None)\<rparr>)"

text \<open>
  The body of the second loop (lines 206-208). An output id that is not in
  \<^verbatim>\<open>UnspentOutputs\<close> reads as the zero \<^verbatim>\<open>Output\<close>, whose \<^verbatim>\<open>Value\<close> is 0; a contract id that
  is not in \<^verbatim>\<open>OpenContracts\<close> reads as \<^verbatim>\<open>nil\<close>, and the field access panics.
\<close>

definition reverseMissedProof ::
  "('c::{zero,plus}, 'h, 'n::{one,minus}) State \<Rightarrow> MissedStorageProof \<Rightarrow>
   fault + ('c, 'h, 'n) State" where
  "reverseMissedProof s missedProof =
     (case map_of (OpenContracts s) (msp_ContractID missedProof) of
        None \<Rightarrow> Inl NilDereference
      | Some r \<Rightarrow>
          (let v = (case UnspentOutputs s (msp_OutputID missedProof) of
                      None \<Rightarrow> 0 | Some out \<Rightarrow> Value out);
               openContract = heap s r
           in Inr (s\<lparr>heap := (heap s)(r := openContract
                       \<lparr>FundsRemaining := FundsRemaining openContract + v,
                        Failures := Failures openContract - 1\<rparr>),
                     UnspentOutputs := (UnspentOutputs s)(msp_OutputID missedProof := None)\<rparr>)))"

fun reverseMissedProofs ::
  "('c::{zero,plus}, 'h, 'n::{one,minus}) State \<Rightarrow> MissedStorageProof list \<Rightarrow>
   fault + ('c, 'h, 'n) State" where
  "reverseMissedProofs s [] = Inr s"
| "reverseMissedProofs s (missedProof # rest) =
     (case reverseMissedProof s missedProof of
        Inl f \<Rightarrow> Inl f
      | Inr s' \<Rightarrow> reverseMissedProofs s' rest)"

definition inverseContractMaintenance ::
  "('c::{zero,plus}, 'h, 'n::{one,minus}) ContractTerminationOutputID_fn \<Rightarrow>
   ('c, 'h, 'n) State \<Rightarrow> fault + ('c, 'h, 'n) State" where
  "inverseContractMaintenance ContractTerminationOutputID s =
     (let s1 = foldl (reopenContract ContractTerminationOutputID) s
                 (ContractTerminations (currentBlockNode s))
      in reverseMissedProofs s1 (MissedStorageProofs (currentBlockNode s1)))"

subsection \<open>Reading the ledger\<close>

text \<open>The record that \<^verbatim>\<open>s.OpenContracts[id]\<close> points to, if the id is in the map.\<close>

definition lookupContract ::
  "('c, 'h, 'n) State \<Rightarrow> ContractID \<Rightarrow> ('c, 'h, 'n) OpenContract option" where
  "lookupContract s ident = map_option (heap s) (map_of (OpenContracts s) ident)"

subsection \<open>Example data\<close>

text \<open>
  The contract of the scenario of the specification, on \<^verbatim>\<open>uint64\<close>, with one open
  contract under the id \<open>[7]\<close>, stored at address 0.
\<close>

definition exContract :: "(64 word, 64 word, 64 word) FileContract" where
  "exContract = \<lparr>ContractFund = 100, FileMerkleRoot = [], FileSize = 4096, Start = 10,
     End = 20, ChallengeFrequency = 5, Tolerance = 1, ValidProofPayout = 10,
     ValidProofAddress = [1], MissedProofPayout = 20, MissedProofAddress = [2]\<rparr>"

definition exOpen ::
  "64 word \<Rightarrow> 64 word \<Rightarrow> bool \<Rightarrow> (64 word, 64 word, 64 word) OpenContract" where
  "exOpen funds failures satisfied = \<lparr>FileContract = exContract, ContractID = [7],
     FundsRemaining = funds, Failures = failures, WindowSatisfied = satisfied\<rparr>"

definition exState ::
  "64 word \<Rightarrow> (64 word, 64 word, 64 word) OpenContract \<Rightarrow> (64 word, 64 word, 64 word) State" where
  "exState h oc = \<lparr>OpenContracts = [([7], 0)], heap = (\<lambda>r. oc), nextRef = 1,
     UnspentOutputs = Map.empty, Height = h, CurrentPath = (\<lambda>h. Inr []),
     currentBlockNode = \<lparr>MissedStorageProofs = [], ContractTerminations = []\<rparr>\<rparr>"

definition exProof :: "(byte list, Hash list) StorageProof" where
  "exProof = \<lparr>sp_ContractID = [7], Segment = [], HashSet = []\<rparr>"

text \<open>
  Stand-ins for the absent functions: output ids that keep their arguments apart, a window
  index that exists on the heights from \<^verbatim>\<open>Start\<close> up to \<^verbatim>\<open>End\<close>, and a hash that returns
  its input.
\<close>

definition exStorageProofOutputID :: "(64 word, 64 word, 64 word) StorageProofOutputID_fn" where
  "exStorageProofOutputID fc cid h proofValid =
     Inr ([0, if proofValid then 1 else 0, ucast h] @ cid)"

definition exContractTerminationOutputID ::
  "(64 word, 64 word, 64 word) ContractTerminationOutputID_fn" where
  "exContractTerminationOutputID fc cid failed = [1, if failed then 1 else 0] @ cid"

definition exWindowIndex :: "(64 word, 64 word, 64 word) WindowIndex_fn" where
  "exWindowIndex fc h =
     (if h < Start fc then Inl ''height below file contract start point''
      else if End fc \<le> h then Inl ''file contract expired''
      else Inr ((h - Start fc) div ChallengeFrequency fc))"

definition exHashBytes :: HashBytes_fn where
  "exHashBytes bs = bs"

text \<open>
  The state that maintenance at height 15 leaves of \<open>exState 15 (exOpen 100 0 False)\<close>:
  the contract missed its proof and terminated.
\<close>

definition exTerminated :: "(64 word, 64 word, 64 word) State" where
  "exTerminated = \<lparr>OpenContracts = [], heap = (\<lambda>r. exOpen 80 1 False), nextRef = 1,
     UnspentOutputs = [[0, 0, 15, 7] \<mapsto> \<lparr>Value = 20, SpendHash = [2]\<rparr>,
                       [1, 1, 7] \<mapsto> \<lparr>Value = 80, SpendHash = [2]\<rparr>],
     Height = 15, CurrentPath = (\<lambda>h. Inr []),
     currentBlockNode =
       \<lparr>MissedStorageProofs = [\<lparr>msp_OutputID = [0, 0, 15, 7], msp_ContractID = [7]\<rparr>],
        ContractTerminations = [0]\<rparr>\<rparr>"

text \<open>
  A second contract, under the id \<open>[8]\<close>: it ends at height 15, tolerates three missed
  proofs and has its window satisfied. \<open>exTwo\<close> holds both contracts at height 15.
\<close>

definition exExpiring :: "(64 word, 64 word, 64 word) OpenContract" where
  "exExpiring = \<lparr>FileContract = exContract\<lparr>End := 15, Tolerance := 3\<rparr>, ContractID = [8],
     FundsRemaining = 50, Failures = 0, WindowSatisfied = True\<rparr>"

definition exTwo :: "(64 word, 64 word, 64 word) State" where
  "exTwo = \<lparr>OpenContracts = [([7], 0), ([8], 1)],
     heap = (\<lambda>r. if r = 0 then exOpen 100 0 False else exExpiring), nextRef = 2,
     UnspentOutputs = Map.empty, Height = 15, CurrentPath = (\<lambda>h. Inr []),
     currentBlockNode = \<lparr>MissedStorageProofs = [], ContractTerminations = []\<rparr>\<rparr>"

text \<open>
  A state at height 12 in which the id of the valid-proof output of the contract \<open>[7]\<close>
  is already taken by another output.
\<close>

definition exCollision :: "(64 word, 64 word, 64 word) State" where
  "exCollision = (exState 12 (exOpen 100 0 False))
     \<lparr>UnspentOutputs := [[0, 1, 12, 7] \<mapsto> \<lparr>Value = 999, SpendHash = [9]\<rparr>]\<rparr>"

subsection \<open>Conditions of the statements\<close>

text \<open>The condition of line 162, under which the scan terminates a contract.\<close>

definition terminating :: "'h \<Rightarrow> ('c::zero, 'h, 'n) OpenContract \<Rightarrow> bool" where
  "terminating h oc \<longleftrightarrow> FundsRemaining oc = 0 \<or> End (FileContract oc) = h \<or>
     Tolerance (FileContract oc) = Failures oc"

text \<open>
  The shape that \<open>addContract\<close> gives the map: a key occurs once (it is a Go map), no two
  keys share a record, and a record carries the id it is stored under.
\<close>

definition ownRecords :: "('c, 'h, 'n) State \<Rightarrow> bool" where
  "ownRecords s \<longleftrightarrow> distinct (map fst (OpenContracts s)) \<and>
     distinct (map snd (OpenContracts s)) \<and>
     (\<forall>(k, r) \<in> set (OpenContracts s). ContractID (heap s r) = k)"

section \<open>Properties\<close>

subsection \<open>Forming a contract\<close>

text \<open>
  C3, at the failing input. The specification asks for \<^verbatim>\<open>Start > currentHeight\<close>, and the
  source's own message says that a contract must start in the future. The guard of the
  source is \<^verbatim>\<open>c.Start < s.Height()\<close>, so a contract whose \<^verbatim>\<open>Start\<close> equals the current
  height passes: at height 10 the example contract, which starts at 10 and ends at 20, is
  accepted.
\<close>

theorem validContract_accepts_Start_at_Height:
  "Start exContract = Height (exState 10 (exOpen 100 0 True)) \<and>
   validContract (exState 10 (exOpen 100 0 True)) exContract = None"
  by (simp add: validContract_def exState_def exContract_def)

text \<open>What the three guards of \<open>validContract\<close> accept, for reference.\<close>

lemma validContract_accepts_iff:
  fixes c :: "('c::{zero,linorder}, 'h::linorder, 'n) FileContract"
  shows "validContract s c = None \<longleftrightarrow>
           0 \<le> ContractFund c \<and> Height s \<le> Start c \<and> Start c < End c"
  by (auto simp: validContract_def)

text \<open>
  C2, as the claim states it, fails: \<open>addContract\<close> has no result and no guard, and an
  id that is already in the map gets a new record. Here the contract under \<open>[7]\<close> had 40
  left and one failure; after \<open>addContract\<close> the id leads to a fresh record.
\<close>

theorem addContract_replaces_present_contract:
  "lookupContract (exState 5 (exOpen 40 1 False)) [7] = Some (exOpen 40 1 False) \<and>
   lookupContract (addContract (exState 5 (exOpen 40 1 False)) exContract [7]) [7] =
     Some (exOpen 100 0 True) \<and>
   exOpen 100 0 True \<noteq> exOpen 40 1 False"
  by (simp add: lookupContract_def addContract_def Let_def exState_def exOpen_def
      exContract_def)

text \<open>
  C2, amended: for every state, contract and id, present or not, \<open>addContract\<close> stores a
  fresh record under the id, with the whole fund remaining, no failure and the window
  satisfied, and leaves the unspent outputs alone.
\<close>

theorem addContract_always_stores:
  "lookupContract (addContract s c i) i =
     Some \<lparr>FileContract = c, ContractID = i, FundsRemaining = ContractFund c, Failures = 0,
           WindowSatisfied = True\<rparr> \<and>
   UnspentOutputs (addContract s c i) = UnspentOutputs s"
  by (simp add: lookupContract_def addContract_def Let_def update_conv')

subsection \<open>The proof index\<close>

text \<open>
  C4, as the claim states it, fails: at height 5 the example contract, which starts at 10,
  has no window, \<open>exWindowIndex\<close> reports the error, and \<open>currentProofIndex\<close> returns
  the index 0 all the same.
\<close>

theorem currentProofIndex_no_window_example:
  "exWindowIndex exContract 5 = Inl ''height below file contract start point'' \<and>
   currentProofIndex exWindowIndex exHashBytes (exState 5 (exOpen 100 0 True)) exProof = Inr 0"
  by (simp add: currentProofIndex_def exWindowIndex_def exState_def exOpen_def
      exContract_def exProof_def)

text \<open>
  C4, amended: whenever \<^verbatim>\<open>WindowIndex\<close> reports an error for an open contract at the
  current height, \<open>currentProofIndex\<close> returns the index 0 and signals nothing.
\<close>

theorem currentProofIndex_WindowIndex_error:
  assumes "map_of (OpenContracts s) (sp_ContractID sp) = Some r"
    and "WindowIndex (FileContract (heap s r)) (Height s) = Inl err"
  shows "currentProofIndex WindowIndex HashBytes s sp = Inr 0"
  using assms by (simp add: currentProofIndex_def)

theorem currentProofIndex_WindowIndex_error_witness:
  "map_of (OpenContracts (exState 25 (exOpen 100 0 True))) (sp_ContractID exProof) = Some 0 \<and>
   exWindowIndex (FileContract (heap (exState 25 (exOpen 100 0 True)) 0))
     (Height (exState 25 (exOpen 100 0 True))) = Inl ''file contract expired'' \<and>
   currentProofIndex exWindowIndex exHashBytes (exState 25 (exOpen 100 0 True)) exProof = Inr 0"
  using currentProofIndex_WindowIndex_error [of "exState 25 (exOpen 100 0 True)" exProof 0
      exWindowIndex "''file contract expired''" exHashBytes]
  by (simp add: exWindowIndex_def exState_def exOpen_def exContract_def exProof_def)

text \<open>
  The caller, \<open>validProof\<close>, cannot tell: without a window it checks the proof against
  the index 0.
\<close>

lemma validProof_no_window:
  assumes "lookupContract s (sp_ContractID sp) = Some oc" and "\<not> WindowSatisfied oc"
    and "CalculateSegments (FileSize (FileContract oc)) = Inr numSegments"
    and "WindowIndex (FileContract oc) (Height s) = Inl err"
  shows "validProof CalculateSegments VerifyReaderProof WindowIndex HashBytes s sp =
           Inr (if VerifyReaderProof (Segment sp) (HashSet sp) numSegments 0
                     (FileMerkleRoot (FileContract oc))
                then None else Some ''provided storage proof is invalid'')"
  using assms
  by (auto simp: validProof_def currentProofIndex_def lookupContract_def Let_def)

text \<open>
  C10: for an open contract with a window at the current height and a trigger block on
  the path, \<open>currentProofIndex\<close> panics with a division by zero exactly when
  \<^verbatim>\<open>FileSize\<close> is 0; nothing in the function guards against it.
\<close>

theorem currentProofIndex_divides_by_FileSize:
  assumes "map_of (OpenContracts s) (sp_ContractID sp) = Some r"
    and "WindowIndex (FileContract (heap s r)) (Height s) = Inr w"
    and "CurrentPath s (w * Start (FileContract (heap s r)) - 1) = Inr b"
  shows "currentProofIndex WindowIndex HashBytes s sp = Inl DivideByZero \<longleftrightarrow>
           FileSize (FileContract (heap s r)) = 0"
  using assms by (simp add: currentProofIndex_def Let_def signed_eq_0_iff)

theorem currentProofIndex_divides_by_FileSize_witness:
  "FileSize (FileContract (exOpen 100 0 False\<lparr>FileContract := exContract\<lparr>FileSize := 0\<rparr>\<rparr>)) = 0 \<and>
   exWindowIndex (exContract\<lparr>FileSize := 0\<rparr>) 15 = Inr 1 \<and>
   currentProofIndex exWindowIndex exHashBytes
     (exState 15 (exOpen 100 0 False\<lparr>FileContract := exContract\<lparr>FileSize := 0\<rparr>\<rparr>)) exProof =
     Inl DivideByZero"
  using currentProofIndex_divides_by_FileSize
      [of "exState 15 (exOpen 100 0 False\<lparr>FileContract := exContract\<lparr>FileSize := 0\<rparr>\<rparr>)"
          exProof 0 exWindowIndex 1 "[]" exHashBytes]
  by (simp add: exWindowIndex_def exState_def exOpen_def exContract_def exProof_def)

text \<open>With a file size that is not 0 the same call returns an index.\<close>

lemma currentProofIndex_example:
  "currentProofIndex exWindowIndex exHashBytes (exState 15 (exOpen 100 0 False)) exProof = Inr 7"
  by (simp add: currentProofIndex_def exWindowIndex_def exHashBytes_def SetBytes_def
      exState_def exOpen_def exContract_def exProof_def Let_def)

subsection \<open>Applying a storage proof\<close>

text \<open>A proof that \<open>validProof\<close> accepts names an open contract whose window is open.\<close>

lemma validProof_accepted_open:
  assumes "validProof CalculateSegments VerifyReaderProof WindowIndex HashBytes s sp = Inr None"
  shows "\<exists>oc. lookupContract s (sp_ContractID sp) = Some oc \<and> \<not> WindowSatisfied oc"
  using assms
  by (auto simp: validProof_def lookupContract_def Let_def
      split: option.splits if_splits sum.splits)

text \<open>
  C5, as the claim states it, fails: in \<open>exCollision\<close> the id of the valid-proof output is
  taken, and \<open>applyStorageProof\<close> returns normally, with the new output under that id.
\<close>

theorem applyStorageProof_overwrites_example:
  "UnspentOutputs exCollision [0, 1, 12, 7] = Some \<lparr>Value = 999, SpendHash = [9]\<rparr> \<and>
   exStorageProofOutputID exContract [7] 12 True = Inr [0, 1, 12, 7] \<and>
   (\<exists>s'. applyStorageProof exStorageProofOutputID exCollision exProof = Inr s' \<and>
      UnspentOutputs s' [0, 1, 12, 7] = Some \<lparr>Value = 10, SpendHash = [1]\<rparr>)"
  by (simp add: applyStorageProof_def Let_def exCollision_def exStorageProofOutputID_def
      exState_def exOpen_def exContract_def exProof_def)

text \<open>
  C5, amended: \<open>applyStorageProof\<close> does not look whether the id is taken, and its
  outcome is decided by two things only. If the contract id of the proof is not in the
  map, the call panics on the \<^verbatim>\<open>nil\<close> record (lines 63-64). If the contract is open and
  the derivation of the valid-proof output id returns an error, the call panics with
  that error (lines 75-77). If the contract is open and the id is derived, the call
  returns normally and the id then holds the new output, whatever the unspent outputs
  held under it before.
\<close>

theorem applyStorageProof_overwrites:
  fixes s :: "('c::{linorder,minus}, 'h, 'n) State"
  shows "(lookupContract s (sp_ContractID sp) = None \<longrightarrow>
            applyStorageProof StorageProofOutputID s sp = Inl NilDereference) \<and>
         (\<forall>oc. lookupContract s (sp_ContractID sp) = Some oc \<longrightarrow>
            (\<forall>err. StorageProofOutputID (FileContract oc) (ContractID oc) (Height s) True = Inl err \<longrightarrow>
               applyStorageProof StorageProofOutputID s sp = Inl (Panic err)) \<and>
            (\<forall>outputID. StorageProofOutputID (FileContract oc) (ContractID oc) (Height s) True =
                 Inr outputID \<longrightarrow>
               (\<exists>s'. applyStorageProof StorageProofOutputID s sp = Inr s' \<and>
                  UnspentOutputs s' outputID =
                    Some \<lparr>Value = min (FundsRemaining oc) (ValidProofPayout (FileContract oc)),
                          SpendHash = ValidProofAddress (FileContract oc)\<rparr>)))"
  by (auto simp: lookupContract_def applyStorageProof_def Let_def min_def)

theorem applyStorageProof_overwrites_witness:
  "lookupContract exCollision (sp_ContractID exProof) = Some (exOpen 100 0 False) \<and>
   UnspentOutputs exCollision [0, 1, 12, 7] = Some \<lparr>Value = 999, SpendHash = [9]\<rparr> \<and>
   (\<exists>s'. applyStorageProof exStorageProofOutputID exCollision exProof = Inr s' \<and>
      UnspentOutputs s' [0, 1, 12, 7] = Some \<lparr>Value = 10, SpendHash = [1]\<rparr>) \<and>
   applyStorageProof (\<lambda>fc cid h proofValid. Inl ''file contract expired'') exCollision exProof =
     Inl (Panic ''file contract expired'') \<and>
   lookupContract exCollision [9] = None \<and>
   applyStorageProof exStorageProofOutputID exCollision (exProof\<lparr>sp_ContractID := [9]\<rparr>) =
     Inl NilDereference"
  using applyStorageProof_overwrites [of exCollision exProof exStorageProofOutputID]
    applyStorageProof_overwrites [of exCollision exProof "\<lambda>fc cid h proofValid. Inl ''file contract expired''"]
    applyStorageProof_overwrites [of exCollision "exProof\<lparr>sp_ContractID := [9]\<rparr>" exStorageProofOutputID]
  by (simp add: lookupContract_def exCollision_def exStorageProofOutputID_def exState_def
      exOpen_def exContract_def exProof_def)

text \<open>
  C6: for every open contract, if the id of the valid-proof output is derived without
  error, \<open>applyStorageProof\<close> adds an unspent output under that id whose value is the
  smaller of \<^verbatim>\<open>FundsRemaining\<close> and \<^verbatim>\<open>ValidProofPayout\<close> and whose address is
  \<^verbatim>\<open>ValidProofAddress\<close>, takes exactly that value off \<^verbatim>\<open>FundsRemaining\<close>, and sets
  \<^verbatim>\<open>WindowSatisfied\<close>. A validated proof names an open contract
  (\<open>validProof_accepted_open\<close>).
\<close>

theorem applyStorageProof_pays:
  fixes s :: "('c::{linorder,minus}, 'h, 'n) State"
  assumes "lookupContract s (sp_ContractID sp) = Some oc"
    and "StorageProofOutputID (FileContract oc) (ContractID oc) (Height s) True = Inr outputID"
  shows "\<exists>s'. applyStorageProof StorageProofOutputID s sp = Inr s' \<and>
           UnspentOutputs s' = (UnspentOutputs s)(outputID \<mapsto>
              \<lparr>Value = min (FundsRemaining oc) (ValidProofPayout (FileContract oc)),
               SpendHash = ValidProofAddress (FileContract oc)\<rparr>) \<and>
           lookupContract s' (sp_ContractID sp) =
             Some (oc\<lparr>FundsRemaining := FundsRemaining oc -
                        min (FundsRemaining oc) (ValidProofPayout (FileContract oc)),
                      WindowSatisfied := True\<rparr>)"
  using assms
  by (auto simp: lookupContract_def applyStorageProof_def Let_def min_def)

theorem applyStorageProof_pays_witness:
  "lookupContract (exState 12 (exOpen 100 0 False)) (sp_ContractID exProof) =
     Some (exOpen 100 0 False) \<and>
   (\<exists>s'. applyStorageProof exStorageProofOutputID (exState 12 (exOpen 100 0 False)) exProof =
            Inr s' \<and>
      UnspentOutputs s' = [[0, 1, 12, 7] \<mapsto> \<lparr>Value = 10, SpendHash = [1]\<rparr>] \<and>
      lookupContract s' [7] = Some (exOpen 90 0 True))"
  using applyStorageProof_pays [of "exState 12 (exOpen 100 0 False)" exProof
      "exOpen 100 0 False" exStorageProofOutputID "[0, 1, 12, 7]"]
  by (simp add: lookupContract_def exStorageProofOutputID_def exState_def exOpen_def
      exContract_def exProof_def)

subsection \<open>Maintenance: the scenario of the specification\<close>

text \<open>
  C7: on \<^verbatim>\<open>uint64\<close>, take a state at height 15 whose only open contract has Start 10,
  End 20, ChallengeFrequency 5, Tolerance 1, ContractFund 100, ValidProofPayout 10,
  MissedProofPayout 20, 100 remaining, no failure and an unsatisfied window. If the id of
  the missed-proof output is derived without error and differs from the id of the
  termination output, one call of \<open>contractMaintenance\<close> adds a missed-proof output of
  value 20 and a termination output of value 80, both to \<^verbatim>\<open>MissedProofAddress\<close>, leaves
  the record with 80 remaining and one failure, records the missed proof and the
  termination in the block node, and removes the contract from the map.
\<close>

theorem contractMaintenance_scenario:
  fixes s :: "(64 word, 64 word, 64 word) State"
  assumes "fc = \<lparr>ContractFund = 100, FileMerkleRoot = root, FileSize = fsize, Start = 10,
             End = 20, ChallengeFrequency = 5, Tolerance = 1, ValidProofPayout = 10,
             ValidProofAddress = va, MissedProofPayout = 20, MissedProofAddress = ma\<rparr>"
    and "OpenContracts s = [(cid, r)]"
    and "heap s r = \<lparr>FileContract = fc, ContractID = cid, FundsRemaining = 100, Failures = 0,
                     WindowSatisfied = False\<rparr>"
    and "Height s = 15"
    and "SP fc cid 15 False = Inr o1" and "CT fc cid True = o2" and "o1 \<noteq> o2"
  shows "\<exists>s'. contractMaintenance SP CT s = Inr s' \<and>
           UnspentOutputs s' = (UnspentOutputs s)
             (o1 \<mapsto> \<lparr>Value = 20, SpendHash = ma\<rparr>, o2 \<mapsto> \<lparr>Value = 80, SpendHash = ma\<rparr>) \<and>
           heap s' r = \<lparr>FileContract = fc, ContractID = cid, FundsRemaining = 80,
                        Failures = 1, WindowSatisfied = False\<rparr> \<and>
           OpenContracts s' = [] \<and>
           currentBlockNode s' =
             \<lparr>MissedStorageProofs = MissedStorageProofs (currentBlockNode s) @
                                      [\<lparr>msp_OutputID = o1, msp_ContractID = cid\<rparr>],
              ContractTerminations = ContractTerminations (currentBlockNode s) @ [r]\<rparr>"
  using assms
  by (simp add: contractMaintenance_def windowSwitch_def terminationCheck_def
      deleteContracts_def Let_def)

theorem contractMaintenance_scenario_witness:
  "exStorageProofOutputID exContract [7] 15 False = Inr [0, 0, 15, 7] \<and>
   exContractTerminationOutputID exContract [7] True = [1, 1, 7] \<and>
   (\<exists>s'. contractMaintenance exStorageProofOutputID exContractTerminationOutputID
            (exState 15 (exOpen 100 0 False)) = Inr s' \<and>
      UnspentOutputs s' = UnspentOutputs exTerminated \<and>
      heap s' 0 = exOpen 80 1 False \<and>
      OpenContracts s' = [] \<and>
      currentBlockNode s' = currentBlockNode exTerminated)"
  using contractMaintenance_scenario [where s = "exState 15 (exOpen 100 0 False)"
      and fc = exContract and cid = "[7]" and r = 0
      and SP = exStorageProofOutputID and CT = exContractTerminationOutputID
      and ?o1.0 = "[0, 0, 15, 7]" and ?o2.0 = "[1, 1, 7]" and root = "[]" and fsize = 4096
      and va = "[1]" and ma = "[2]"]
  by (simp add: exStorageProofOutputID_def exContractTerminationOutputID_def exState_def
      exOpen_def exContract_def exTerminated_def)

subsection \<open>Maintenance: what one step of the scan touches\<close>

lemma windowSwitch_frame:
  assumes "windowSwitch SP r s = Inr s1"
  shows "Height s1 = Height s" and "OpenContracts s1 = OpenContracts s"
    and "r' \<noteq> r \<Longrightarrow> heap s1 r' = heap s r'"
    and "ContractID (heap s1 r') = ContractID (heap s r')"
    and "ContractTerminations (currentBlockNode s1) = ContractTerminations (currentBlockNode s)"
  using assms
  by (auto simp: windowSwitch_def Let_def split: if_splits sum.splits)

lemma windowSwitch_outputs:
  assumes "windowSwitch SP r s = Inr s1" and "\<forall>fc cid h b. SP fc cid h b \<noteq> Inr t"
  shows "UnspentOutputs s1 t = UnspentOutputs s t"
  using assms
  by (fastforce simp: windowSwitch_def Let_def split: if_splits sum.splits)

lemma terminationCheck_frame:
  assumes "terminationCheck CT r s del = (s2, del2)"
  shows "heap s2 = heap s" and "Height s2 = Height s" and "OpenContracts s2 = OpenContracts s"
    and "set del \<subseteq> set del2"
    and "set (ContractTerminations (currentBlockNode s)) \<subseteq> set (ContractTerminations (currentBlockNode s2))"
  using assms
  by (auto simp: terminationCheck_def Let_def split: if_splits)

lemma terminationCheck_outputs:
  assumes "terminationCheck CT r s del = (s2, del2)"
    and "\<forall>fc b. CT fc (ContractID (heap s r)) b \<noteq> t"
  shows "UnspentOutputs s2 t = UnspentOutputs s t"
  using assms
  by (fastforce simp: terminationCheck_def Let_def split: if_splits)

lemma terminationCheck_terminates:
  assumes "terminationCheck CT r s del = (s2, del2)" and "terminating (Height s) (heap s r)"
  shows "r \<in> set (ContractTerminations (currentBlockNode s2))"
    and "ContractID (heap s r) \<in> set del2"
    and "FundsRemaining (heap s r) \<noteq> 0 \<Longrightarrow>
           UnspentOutputs s2 (CT (FileContract (heap s r)) (ContractID (heap s r))
              (Failures (heap s r) = Tolerance (FileContract (heap s r)))) =
           Some \<lparr>Value = FundsRemaining (heap s r),
                 SpendHash = (if Failures (heap s r) = Tolerance (FileContract (heap s r))
                              then MissedProofAddress (FileContract (heap s r))
                              else ValidProofAddress (FileContract (heap s r)))\<rparr>"
  using assms
  by (auto simp: terminationCheck_def terminating_def Let_def split: if_splits)

lemma maintenanceScan_Cons:
  assumes "maintenanceScan SP CT (r # rs) s del = Inr (s', del')"
  obtains s1 s2 del2 where "windowSwitch SP r s = Inr s1"
    and "terminationCheck CT r s1 del = (s2, del2)"
    and "maintenanceScan SP CT rs s2 del2 = Inr (s', del')"
  using assms by (auto split: sum.splits prod.splits)

lemma maintenanceScan_frame:
  assumes "maintenanceScan SP CT rs s del = Inr (s', del')"
  shows "Height s' = Height s \<and> OpenContracts s' = OpenContracts s \<and>
         (\<forall>r. r \<notin> set rs \<longrightarrow> heap s' r = heap s r) \<and>
         (\<forall>r. ContractID (heap s' r) = ContractID (heap s r)) \<and>
         set del \<subseteq> set del' \<and>
         set (ContractTerminations (currentBlockNode s)) \<subseteq>
           set (ContractTerminations (currentBlockNode s'))"
  using assms
proof (induction rs arbitrary: s del)
  case Nil
  then show ?case by simp
next
  case (Cons r rs)
  from Cons.prems obtain s1 s2 del2 where w: "windowSwitch SP r s = Inr s1"
    and t: "terminationCheck CT r s1 del = (s2, del2)"
    and rest: "maintenanceScan SP CT rs s2 del2 = Inr (s', del')"
    by (rule maintenanceScan_Cons)
  note ih = Cons.IH [OF rest]
  note wf = windowSwitch_frame [OF w]
  note tf = terminationCheck_frame [OF t]
  show ?case
  proof (intro conjI allI impI)
    show "Height s' = Height s" using ih wf(1) tf(2) by simp
    show "OpenContracts s' = OpenContracts s" using ih wf(2) tf(3) by simp
    show "heap s' q = heap s q" if "q \<notin> set (r # rs)" for q
      using that ih wf(3) [of q] tf(1) by simp
    show "ContractID (heap s' q) = ContractID (heap s q)" for q
      using ih wf(4) [of q] tf(1) by simp
    show "set del \<subseteq> set del'" using ih tf(4) by blast
    show "set (ContractTerminations (currentBlockNode s)) \<subseteq>
           set (ContractTerminations (currentBlockNode s'))"
      using ih wf(5) tf(5) by auto
  qed
qed

lemma maintenanceScan_outputs:
  assumes "maintenanceScan SP CT rs s del = Inr (s', del')"
    and "\<forall>fc cid h b. SP fc cid h b \<noteq> Inr t"
    and "\<forall>r \<in> set rs. \<forall>fc b. CT fc (ContractID (heap s r)) b \<noteq> t"
  shows "UnspentOutputs s' t = UnspentOutputs s t"
  using assms
proof (induction rs arbitrary: s del)
  case Nil
  then show ?case by simp
next
  case (Cons r rs)
  from Cons.prems(1) obtain s1 s2 del2 where w: "windowSwitch SP r s = Inr s1"
    and t: "terminationCheck CT r s1 del = (s2, del2)"
    and rest: "maintenanceScan SP CT rs s2 del2 = Inr (s', del')"
    by (rule maintenanceScan_Cons)
  have ids: "ContractID (heap s2 q) = ContractID (heap s q)" for q
    using windowSwitch_frame(4) [OF w] terminationCheck_frame(1) [OF t] by simp
  have "UnspentOutputs s' t = UnspentOutputs s2 t"
    using Cons.IH [OF rest Cons.prems(2)] Cons.prems(3) ids by simp
  also have "\<dots> = UnspentOutputs s1 t"
    using terminationCheck_outputs [OF t] Cons.prems(3) windowSwitch_frame(4) [OF w] by simp
  also have "\<dots> = UnspentOutputs s t"
    using windowSwitch_outputs [OF w Cons.prems(2)] .
  finally show ?case .
qed


lemma maintenanceScan_terminates:
  assumes "maintenanceScan SP CT rs s del = Inr (s', del')"
    and "distinct rs"
    and "inj_on (\<lambda>r. ContractID (heap s r)) (set rs)"
    and ct: "\<forall>fc cid b fc' cid' b'. CT fc cid b = CT fc' cid' b' \<longrightarrow> cid = cid'"
    and sp: "\<forall>fc cid h b fc' cid' b'. SP fc cid h b \<noteq> Inr (CT fc' cid' b')"
    and "r \<in> set rs" and "terminating (Height s) (heap s' r)"
  shows "r \<in> set (ContractTerminations (currentBlockNode s')) \<and>
         ContractID (heap s' r) \<in> set del' \<and>
         (FundsRemaining (heap s' r) \<noteq> 0 \<longrightarrow>
            UnspentOutputs s' (CT (FileContract (heap s' r)) (ContractID (heap s' r))
               (Failures (heap s' r) = Tolerance (FileContract (heap s' r)))) =
            Some \<lparr>Value = FundsRemaining (heap s' r),
                  SpendHash = (if Failures (heap s' r) = Tolerance (FileContract (heap s' r))
                               then MissedProofAddress (FileContract (heap s' r))
                               else ValidProofAddress (FileContract (heap s' r)))\<rparr>)"
  using assms(1-3,6,7)
proof (induction rs arbitrary: s del)
  case Nil
  then show ?case by simp
next
  case (Cons q rs)
  from Cons.prems(1) obtain s1 s2 del2 where w: "windowSwitch SP q s = Inr s1"
    and t: "terminationCheck CT q s1 del = (s2, del2)"
    and rest: "maintenanceScan SP CT rs s2 del2 = Inr (s', del')"
    by (rule maintenanceScan_Cons)
  note rf = maintenanceScan_frame [OF rest]
  have ids: "ContractID (heap s2 p) = ContractID (heap s p)" for p
    using windowSwitch_frame(4) [OF w] terminationCheck_frame(1) [OF t] by simp
  have hgt: "Height s2 = Height s" and hgt1: "Height s1 = Height s"
    using windowSwitch_frame(1) [OF w] terminationCheck_frame(2) [OF t] by simp_all
  show ?case
  proof (cases "r = q")
    case True
    with Cons.prems(2) have notin: "r \<notin> set rs" by simp
    have same: "heap s' r = heap s1 r"
      using rf notin terminationCheck_frame(1) [OF t] by simp
    have term1: "terminating (Height s1) (heap s1 q)"
      using Cons.prems(5) same hgt1 True by simp
    note tt = terminationCheck_terminates [OF t term1]
    have in_list: "r \<in> set (ContractTerminations (currentBlockNode s'))"
      using tt(1) rf True by blast
    have in_del: "ContractID (heap s' r) \<in> set del'"
      using tt(2) rf same True by auto
    have out: "UnspentOutputs s' (CT (FileContract (heap s' r)) (ContractID (heap s' r)) b) =
               UnspentOutputs s2 (CT (FileContract (heap s' r)) (ContractID (heap s' r)) b)" for b
    proof (rule maintenanceScan_outputs [OF rest])
      show "\<forall>fc cid h b'. SP fc cid h b' \<noteq>
              Inr (CT (FileContract (heap s' r)) (ContractID (heap s' r)) b)"
        using sp by blast
      show "\<forall>p\<in>set rs. \<forall>fc b'. CT fc (ContractID (heap s2 p)) b' \<noteq>
              CT (FileContract (heap s' r)) (ContractID (heap s' r)) b"
      proof (intro ballI allI notI)
        fix p fc b'
        assume p: "p \<in> set rs"
          and eq: "CT fc (ContractID (heap s2 p)) b' =
                   CT (FileContract (heap s' r)) (ContractID (heap s' r)) b"
        from ct eq have "ContractID (heap s2 p) = ContractID (heap s' r)" by blast
        then have "ContractID (heap s p) = ContractID (heap s r)"
          using ids [of p] ids [of r] rf by simp
        moreover have "p \<in> set (q # rs)" "r \<in> set (q # rs)"
          using p True by simp_all
        ultimately have "p = r"
          by (rule inj_onD [OF Cons.prems(3)])
        with p notin show False by simp
      qed
    qed
    show ?thesis
      using in_list in_del out tt(3) same True by auto
  next
    case False
    with Cons.prems(4) have r: "r \<in> set rs" by simp
    have inj: "inj_on (\<lambda>r. ContractID (heap s2 r)) (set rs)"
      using Cons.prems(3) ids by (auto simp: inj_on_def)
    from Cons.prems(2) have d: "distinct rs" by simp
    from Cons.prems(5) hgt have term2: "terminating (Height s2) (heap s' r)" by simp
    from Cons.IH [OF rest d inj r term2] show ?thesis .
  qed
qed

lemma map_of_foldl_delete:
  "map_of (foldl (\<lambda>m k. AList.delete k m) al ks) k = (if k \<in> set ks then None else map_of al k)"
  by (induction ks arbitrary: al) (auto simp: delete_conv')

lemma ownRecords_inj:
  assumes "ownRecords s"
  shows "inj_on (\<lambda>r. ContractID (heap s r)) (set (map snd (OpenContracts s)))"
proof (rule inj_onI)
  fix x y
  assume x: "x \<in> set (map snd (OpenContracts s))" and y: "y \<in> set (map snd (OpenContracts s))"
    and eq: "ContractID (heap s x) = ContractID (heap s y)"
  from x obtain k where k: "(k, x) \<in> set (OpenContracts s)" by auto
  from y obtain l where l: "(l, y) \<in> set (OpenContracts s)" by auto
  from assms k l have "ContractID (heap s x) = k" "ContractID (heap s y) = l"
    by (auto simp: ownRecords_def)
  with eq have "k = l" by simp
  moreover from assms have "distinct (map fst (OpenContracts s))" by (simp add: ownRecords_def)
  ultimately show "x = y" using k l by (metis eq_key_imp_eq_value)
qed

text \<open>
  The contracts that a scan adds to the block node's termination list are, in the order of
  the scan, those whose record meets the condition of line 162 when the scan is done with
  it.
\<close>

lemma terminationCheck_terminations:
  assumes "terminationCheck CT r s del = (s2, del2)"
  shows "ContractTerminations (currentBlockNode s2) =
           ContractTerminations (currentBlockNode s) @
           (if terminating (Height s) (heap s r) then [r] else [])"
  using assms
  by (auto simp: terminationCheck_def terminating_def Let_def split: if_splits)

lemma maintenanceScan_terminations:
  assumes "maintenanceScan SP CT rs s del = Inr (s', del')" and "distinct rs"
  shows "ContractTerminations (currentBlockNode s') =
           ContractTerminations (currentBlockNode s) @
           filter (\<lambda>r. terminating (Height s) (heap s' r)) rs"
  using assms
proof (induction rs arbitrary: s del)
  case Nil
  then show ?case by simp
next
  case (Cons q rs)
  from Cons.prems(1) obtain s1 s2 del2 where w: "windowSwitch SP q s = Inr s1"
    and t: "terminationCheck CT q s1 del = (s2, del2)"
    and rest: "maintenanceScan SP CT rs s2 del2 = Inr (s', del')"
    by (rule maintenanceScan_Cons)
  from Cons.prems(2) have d: "distinct rs" and q: "q \<notin> set rs" by simp_all
  have hgt: "Height s1 = Height s" "Height s2 = Height s"
    using windowSwitch_frame(1) [OF w] terminationCheck_frame(2) [OF t] by simp_all
  have same: "heap s' q = heap s1 q"
    using maintenanceScan_frame [OF rest] q terminationCheck_frame(1) [OF t] by simp
  have "ContractTerminations (currentBlockNode s') =
          ContractTerminations (currentBlockNode s2) @
          filter (\<lambda>r. terminating (Height s) (heap s' r)) rs"
    using Cons.IH [OF rest d] hgt by simp
  also have "ContractTerminations (currentBlockNode s2) =
          ContractTerminations (currentBlockNode s) @
          (if terminating (Height s) (heap s' q) then [q] else [])"
    using terminationCheck_terminations [OF t] windowSwitch_frame(5) [OF w] hgt same by simp
  finally show ?case by simp
qed

lemma contractMaintenance_terminations:
  assumes "contractMaintenance SP CT s = Inr s'" and "distinct (map snd (OpenContracts s))"
  shows "ContractTerminations (currentBlockNode s') =
           ContractTerminations (currentBlockNode s) @
           filter (\<lambda>r. terminating (Height s) (heap s' r)) (map snd (OpenContracts s))"
proof -
  from assms(1) obtain s1 del where
    scan: "maintenanceScan SP CT (map snd (OpenContracts s)) s [] = Inr (s1, del)"
    and s': "s' = deleteContracts del s1"
    by (auto simp: contractMaintenance_def split: sum.splits prod.splits)
  from maintenanceScan_terminations [OF scan assms(2)] show ?thesis
    by (simp add: s' deleteContracts_def)
qed

subsection \<open>Maintenance: the termination output\<close>

text \<open>
  C8: let a call of \<open>contractMaintenance\<close> return, in a state whose map has the shape
  \<open>ownRecords\<close>, with termination output ids that differ for different contract ids and
  are never storage-proof output ids. Take an open contract whose record, as the call
  leaves it, has funds remaining and either ends at this height or has used up its
  tolerance. Then the unspent outputs hold its termination output: the value is all of
  the remaining funds, and the address is \<^verbatim>\<open>MissedProofAddress\<close> when \<^verbatim>\<open>Failures\<close> equals
  \<^verbatim>\<open>Tolerance\<close> and \<^verbatim>\<open>ValidProofAddress\<close> otherwise. The contract is in the block node's
  termination list and no longer in the map.
\<close>

theorem contractMaintenance_termination_output:
  assumes run: "contractMaintenance SP CT s = Inr s'"
    and own: "ownRecords s"
    and ct: "\<forall>fc cid b fc' cid' b'. CT fc cid b = CT fc' cid' b' \<longrightarrow> cid = cid'"
    and sp: "\<forall>fc cid h b fc' cid' b'. SP fc cid h b \<noteq> Inr (CT fc' cid' b')"
    and entry: "(k, r) \<in> set (OpenContracts s)"
    and oc: "oc = heap s' r"
    and cond: "End (FileContract oc) = Height s \<or> Tolerance (FileContract oc) = Failures oc"
    and funds: "FundsRemaining oc \<noteq> 0"
  shows "UnspentOutputs s' (CT (FileContract oc) k (Failures oc = Tolerance (FileContract oc))) =
           Some \<lparr>Value = FundsRemaining oc,
                 SpendHash = (if Failures oc = Tolerance (FileContract oc)
                              then MissedProofAddress (FileContract oc)
                              else ValidProofAddress (FileContract oc))\<rparr> \<and>
         r \<in> set (ContractTerminations (currentBlockNode s')) \<and>
         lookupContract s' k = None"
proof -
  from run obtain s1 del where scan: "maintenanceScan SP CT (map snd (OpenContracts s)) s [] = Inr (s1, del)"
    and s': "s' = deleteContracts del s1"
    by (auto simp: contractMaintenance_def split: sum.splits prod.splits)
  have same: "heap s' = heap s1" "UnspentOutputs s' = UnspentOutputs s1"
    "currentBlockNode s' = currentBlockNode s1"
    by (simp_all add: s' deleteContracts_def)
  from own have d: "distinct (map snd (OpenContracts s))" by (simp add: ownRecords_def)
  from entry have r: "r \<in> set (map snd (OpenContracts s))" by force
  have fin: "terminating (Height s) (heap s1 r)"
    using cond oc same(1) by (auto simp: terminating_def)
  note main = maintenanceScan_terminates [OF scan d ownRecords_inj [OF own] ct sp r fin]
  have "ContractID (heap s1 r) = ContractID (heap s r)"
    using maintenanceScan_frame [OF scan] by simp
  also have "\<dots> = k" using own entry by (auto simp: ownRecords_def)
  finally have key: "ContractID (heap s1 r) = k" .
  have "lookupContract s' k = None"
    using main key by (simp add: lookupContract_def s' deleteContracts_def map_of_foldl_delete)
  then show ?thesis
    using main key oc same funds by simp
qed


theorem contractMaintenance_termination_output_witness:
  "ownRecords exTwo \<and>
   (\<exists>s'. contractMaintenance exStorageProofOutputID exContractTerminationOutputID exTwo = Inr s' \<and>
      heap s' 0 = exOpen 80 1 False \<and>
      heap s' 1 = exExpiring\<lparr>WindowSatisfied := False\<rparr> \<and>
      UnspentOutputs s' [1, 1, 7] = Some \<lparr>Value = 80, SpendHash = [2]\<rparr> \<and>
      UnspentOutputs s' [1, 0, 8] = Some \<lparr>Value = 50, SpendHash = [1]\<rparr> \<and>
      ContractTerminations (currentBlockNode s') = [0, 1] \<and>
      lookupContract s' [7] = None \<and> lookupContract s' [8] = None)"
proof -
  have own: "ownRecords exTwo"
    by (simp add: ownRecords_def exTwo_def exOpen_def exExpiring_def)
  have ct: "\<forall>fc cid b fc' cid' b'. exContractTerminationOutputID fc cid b =
              exContractTerminationOutputID fc' cid' b' \<longrightarrow> cid = cid'"
    by (simp add: exContractTerminationOutputID_def)
  have sp: "\<forall>fc cid h b fc' cid' b'. exStorageProofOutputID fc cid h b \<noteq>
              Inr (exContractTerminationOutputID fc' cid' b')"
    by (simp add: exStorageProofOutputID_def exContractTerminationOutputID_def)
  have "\<exists>s'. contractMaintenance exStorageProofOutputID exContractTerminationOutputID exTwo = Inr s' \<and>
      heap s' 0 = exOpen 80 1 False \<and> heap s' 1 = exExpiring\<lparr>WindowSatisfied := False\<rparr> \<and>
      ContractTerminations (currentBlockNode s') = [0, 1]"
    by (simp add: contractMaintenance_def windowSwitch_def terminationCheck_def
        deleteContracts_def Let_def exTwo_def exOpen_def exExpiring_def exContract_def
        exStorageProofOutputID_def exContractTerminationOutputID_def)
  then obtain s' where run: "contractMaintenance exStorageProofOutputID exContractTerminationOutputID exTwo = Inr s'"
    and h0: "heap s' 0 = exOpen 80 1 False" and h1: "heap s' 1 = exExpiring\<lparr>WindowSatisfied := False\<rparr>"
    and l: "ContractTerminations (currentBlockNode s') = [0, 1]"
    by blast
  have a: "UnspentOutputs s' [1, 1, 7] = Some \<lparr>Value = 80, SpendHash = [2]\<rparr> \<and> lookupContract s' [7] = None"
    using contractMaintenance_termination_output [OF run own ct sp, of "[7]" 0 "exOpen 80 1 False"] h0
    by (simp add: exTwo_def exOpen_def exContract_def exContractTerminationOutputID_def)
  have b: "UnspentOutputs s' [1, 0, 8] = Some \<lparr>Value = 50, SpendHash = [1]\<rparr> \<and> lookupContract s' [8] = None"
    using contractMaintenance_termination_output [OF run own ct sp, of "[8]" 1 "exExpiring\<lparr>WindowSatisfied := False\<rparr>"] h1
    by (simp add: exTwo_def exExpiring_def exContract_def exContractTerminationOutputID_def)
  from own run h0 h1 l a b show ?thesis by blast
qed


subsection \<open>Inversion\<close>












text \<open>
  The inversion does undo the scenario: the contract is back under its id with 100
  remaining and no failure, and both outputs are gone.
\<close>

lemma inverseContractMaintenance_scenario:
  "\<exists>s'. inverseContractMaintenance exContractTerminationOutputID exTerminated = Inr s' \<and>
     lookupContract s' [7] = Some (exOpen 100 0 False) \<and> UnspentOutputs s' = Map.empty"
  by (simp add: inverseContractMaintenance_def reopenContract_def reverseMissedProof_def
      lookupContract_def Let_def exTerminated_def exOpen_def exContract_def
      exContractTerminationOutputID_def)

text \<open>
  C1, at the failing input. At height 15 the example contract is at a window boundary
  with its window satisfied: it has 100 remaining and no failure, so the scan only resets
  \<^verbatim>\<open>WindowSatisfied\<close> (line 158) and records nothing in the block node. The inversion works
  from the block node's records alone and has nothing to undo: after maintenance and
  inversion the contract's \<^verbatim>\<open>WindowSatisfied\<close> is false, where it was true before.
\<close>

theorem maintenance_inversion_loses_WindowSatisfied:
  "\<exists>s1 s2. contractMaintenance exStorageProofOutputID exContractTerminationOutputID
              (exState 15 (exOpen 100 0 True)) = Inr s1 \<and>
     inverseContractMaintenance exContractTerminationOutputID s1 = Inr s2 \<and>
     lookupContract (exState 15 (exOpen 100 0 True)) [7] = Some (exOpen 100 0 True) \<and>
     lookupContract s2 [7] = Some (exOpen 100 0 False)"
  by (simp add: contractMaintenance_def windowSwitch_def terminationCheck_def
      deleteContracts_def Let_def inverseContractMaintenance_def lookupContract_def
      exState_def exOpen_def exContract_def)

end
